theory Spec2Isabelle
  imports Main "HOL-Library.Sublist"
begin

section \<open>Go strings, bytes and runes\<close>

text \<open>
  A Go string is a sequence of bytes, so it is a \<^typ>\<open>string\<close> here (a list of 8-bit
  characters); \<open>len\<close> is \<^const>\<open>length\<close>. A rune is a code point, a natural number.
  Pointers to structs are modelled by the struct they point to: nil pointers are outside
  the model.
\<close>

definition byte :: "char \<Rightarrow> nat" where
  "byte c = of_char c"

text \<open>
  \<open>s[i]\<close> panics when \<open>i\<close> is out of range, and so does \<open>s[i:]\<close> when \<open>i > len(s)\<close>
  and \<open>s[:j]\<close> when \<open>j < 0\<close> or \<open>j > len(s)\<close>: the panic is \<open>None\<close>.
\<close>

definition index :: "string \<Rightarrow> nat \<Rightarrow> char option" where
  "index s i = (if i < length s then Some (s ! i) else None)"

definition slice_from :: "string \<Rightarrow> nat \<Rightarrow> string option" where
  "slice_from s i = (if i \<le> length s then Some (drop i s) else None)"

definition slice_to :: "string \<Rightarrow> int \<Rightarrow> string option" where
  "slice_to s j = (if 0 \<le> j \<and> j \<le> int (length s) then Some (take (nat j) s) else None)"

text \<open>
  \<open>string(b)\<close> for a byte \<open>b\<close>, and \<open>string(r)\<close> for a rune below U+0800, is the UTF-8
  encoding of that code point: one byte below U+0080, two bytes from there on.
\<close>

definition string_of_rune :: "nat \<Rightarrow> string" where
  "string_of_rune r =
     (if r < 128 then [char_of r]
      else [char_of (192 + r div 64), char_of (128 + r mod 64)])"

text \<open>
  Package \<open>unicode\<close> on the runes below U+0100, the only ones \<open>pickLabel\<close> builds
  (each is \<open>rune(b)\<close> for a byte \<open>b\<close>). The upper case letters there are A-Z, U+00C0-U+00D6
  and U+00D8-U+00DE, each 32 below its lower case letter; U+00B5 and U+00FF have their
  upper case letters at U+039C and U+0178.
\<close>

definition unicode_IsUpper :: "nat \<Rightarrow> bool" where
  "unicode_IsUpper r \<longleftrightarrow>
     (65 \<le> r \<and> r \<le> 90) \<or> (192 \<le> r \<and> r \<le> 214) \<or> (216 \<le> r \<and> r \<le> 222)"

definition unicode_ToUpper :: "nat \<Rightarrow> nat" where
  "unicode_ToUpper r =
     (if (97 \<le> r \<and> r \<le> 122) \<or> (224 \<le> r \<and> r \<le> 246) \<or> (248 \<le> r \<and> r \<le> 254)
      then r - 32
      else if r = 181 then 924
      else if r = 255 then 376
      else r)"

definition unicode_ToLower :: "nat \<Rightarrow> nat" where
  "unicode_ToLower r = (if unicode_IsUpper r then r + 32 else r)"

text \<open>
  \<open>strings.ToLower\<close> is used by \<open>pickLabel\<close> on two kinds of strings. A label is a
  concatenation of \<open>string(b)\<close> for bytes \<open>b\<close>, that is the encoding of runes below U+0100,
  kept here as the list of these runes: \<open>ToLower\<close> maps each rune and encodes the result.
  A name shorter than two bytes is empty, one ASCII byte, or one byte that is not valid
  UTF-8, which \<open>strings.Map\<close> replaces by U+FFFD (bytes EF BF BD).
\<close>

definition ToLower_runes :: "nat list \<Rightarrow> string" where
  "ToLower_runes rs = concat (map (\<lambda>r. string_of_rune (unicode_ToLower r)) rs)"

definition ToLower_short :: "string \<Rightarrow> string" where
  "ToLower_short s =
     (case s of
        [] \<Rightarrow> []
      | c # _ \<Rightarrow>
          if byte c < 128 then string_of_rune (unicode_ToLower (byte c))
          else [char_of (239::nat), char_of (191::nat), char_of (189::nat)])"

text \<open>
  \<open>strings.Split(s, sep)\<close> for a non-empty \<open>sep\<close>: the substrings between the
  non-overlapping occurrences of \<open>sep\<close>, found from the left; \<open>cur\<close> is the part being read.
\<close>

function Split_from :: "string \<Rightarrow> string \<Rightarrow> string \<Rightarrow> string list" where
  "Split_from sep cur [] = [cur]"
| "Split_from sep cur (c # cs) =
     (if sep \<noteq> [] \<and> take (length sep) (c # cs) = sep
      then cur # Split_from sep [] (drop (length sep) (c # cs))
      else Split_from sep (cur @ [c]) cs)"
  by pat_completeness auto
termination
  by (relation "measure (\<lambda>(sep, cur, s). length s)") auto

definition Split :: "string \<Rightarrow> string \<Rightarrow> string list" where
  "Split s sep = Split_from sep [] s"

text \<open>
  \<open>regexp.MustCompile(`[A-Z][^A-Z]*`).FindAllString(s, -1)\<close>: every match starts at an
  ASCII upper case letter and runs up to the next one. The bytes of a rune beyond ASCII
  and the bytes that are not valid UTF-8 are all outside A-Z, so the matches are the
  same read byte by byte.
\<close>

definition isAZ :: "char \<Rightarrow> bool" where
  "isAZ c \<longleftrightarrow> 65 \<le> byte c \<and> byte c \<le> 90"

function FindAllString_upper :: "string \<Rightarrow> string list" where
  "FindAllString_upper [] = []"
| "FindAllString_upper (c # cs) =
     (if isAZ c
      then (c # takeWhile (\<lambda>d. \<not> isAZ d) cs) # FindAllString_upper (dropWhile (\<lambda>d. \<not> isAZ d) cs)
      else FindAllString_upper cs)"
  by pat_completeness auto
termination
  by (relation "measure length") (auto simp: length_dropWhile_le less_Suc_eq_le)

section \<open>pickLabel\<close>

definition labelSeparators :: "string list" where
  "labelSeparators = [''-'', ''_'', ''.'', '' '', ''%20'']"

definition maxLabelLen :: nat where
  "maxLabelLen = 4"

text \<open>
  The loop over the separators: \<open>parts\<close> is overwritten by each split and the loop stops
  at the first split with more than one part.
\<close>

fun splitBySeparators :: "string \<Rightarrow> string list \<Rightarrow> string list \<Rightarrow> string list" where
  "splitBySeparators packageName [] parts = parts"
| "splitBySeparators packageName (d # ds) parts =
     (let parts' = Split packageName d
      in if length parts' > 1 then parts' else splitBySeparators packageName ds parts')"

text \<open>
  The loop \<open>for i, part := range parts\<close>: it stops once \<open>i > maxLabelLen\<close> and appends
  \<open>string(part[0])\<close>, which panics on an empty part.
\<close>

fun labelOfParts :: "nat \<Rightarrow> string list \<Rightarrow> nat list \<Rightarrow> nat list option" where
  "labelOfParts i [] label = Some label"
| "labelOfParts i (part # parts) label =
     (if i > maxLabelLen then Some label
      else case index part 0 of
             None \<Rightarrow> None
           | Some b \<Rightarrow> labelOfParts (i + 1) parts (label @ [byte b]))"

text \<open>
  The first byte is replaced by \<open>string(byte(unicode.ToUpper(rune(packageName[0]))))\<close>
  when it is not an upper case letter; \<open>byte(...)\<close> keeps the low 8 bits.
\<close>

definition upperFirst :: "string \<Rightarrow> string option" where
  "upperFirst packageName =
     (case index packageName 0 of
        None \<Rightarrow> None
      | Some b \<Rightarrow>
          if \<not> unicode_IsUpper (byte b)
          then map_option (\<lambda>rest. string_of_rune (unicode_ToUpper (byte b) mod 256) @ rest)
                 (slice_from packageName 1)
          else Some packageName)"

definition pickLabel :: "string \<Rightarrow> string option" where
  "pickLabel packageName =
     (let nameLen = length packageName in
      if nameLen < 2 then Some (ToLower_short packageName)
      else
        let parts = splitBySeparators packageName labelSeparators [] in
        if length parts > 1 then map_option ToLower_runes (labelOfParts 0 parts [])
        else
          case upperFirst packageName of
            None \<Rightarrow> None
          | Some packageName' \<Rightarrow>
              let parts' = FindAllString_upper packageName' in
              if length parts' > 1 then map_option ToLower_runes (labelOfParts 0 parts' [])
              else
                (case (index packageName' 0, index packageName' (nameLen div 2),
                       index packageName' (nameLen - 1)) of
                   (Some a, Some b, Some c) \<Rightarrow> Some (ToLower_runes [byte a, byte b, byte c])
                 | _ \<Rightarrow> None))"

section \<open>Errors and outcomes\<close>

text \<open>
  A Go \<open>error\<close> value is its message (\<open>e.Error()\<close>); the result type \<open>error\<close> of a Go
  function is \<^typ>\<open>'a option\<close> over it, \<open>nil\<close> being \<open>None\<close>. A call either returns,
  panics, or blocks for ever on a \<open>sync.WaitGroup\<close> whose counter never reaches zero.
\<close>

datatype error = Err string

fun Error :: "error \<Rightarrow> string" where
  "Error (Err msg) = msg"

datatype 'a outcome = Returns 'a | Panics | Blocks

section \<open>Packages, templates and plugins\<close>

text \<open>
  Modelled from the spec: the declarations of \<open>Template\<close> and \<open>Plugin\<close> are not among the
  sources; the fields are those of the spec's data model, which are the ones the code
  reads and writes. \<open>Package\<close> is the struct of \<open>package.go\<close> without its database columns
  (ID and the three time stamps).
\<close>

record Template =
  IsFile :: bool
  Path :: string
  Destination :: string
  Description :: string

record Plugin =
  Path :: string
  ExecNumber :: int
  Description :: string

record Package =
  Name :: string
  Label :: string
  Description :: string
  Templates :: "Template list"
  Plugins :: "Plugin list"
  IsDefault :: bool

definition NewPackage :: "string \<Rightarrow> string \<Rightarrow> bool \<Rightarrow> Package" where
  "NewPackage name label isDefault =
     \<lparr>Name = name, Label = label, Description = [], Templates = [], Plugins = [],
      IsDefault = isDefault\<rparr>"

definition isEmpty :: "Package \<Rightarrow> bool" where
  "isEmpty c = (if length (Templates c) = 0 \<and> length (Plugins c) = 0 then True else False)"

section \<open>Tree entries and their conversion\<close>

text \<open>
  A compiled \<open>*regexp.Regexp\<close> is used only through \<open>FindStringIndex(s) != nil\<close>, so it is
  the predicate "the expression has a match somewhere in \<open>s\<close>". The two expressions the
  code compiles, \<open>templates/\<close> and \<open>configs/.*\<close>, have a match exactly in the strings that
  contain the literal text (\<open>.*\<close> also matches the empty string).
\<close>

type_synonym Regexp = "string \<Rightarrow> bool"

fun contains :: "string \<Rightarrow> string \<Rightarrow> bool" where
  "contains [] sub = (sub = [])"
| "contains (c # cs) sub = (take (length sub) (c # cs) = sub \<or> contains cs sub)"

definition rex_templates :: Regexp where
  "rex_templates s = contains s ''templates/''"

definition rex_configs :: Regexp where
  "rex_configs s = contains s ''configs/''"

definition HasPrefix :: "string \<Rightarrow> string \<Rightarrow> bool" where
  "HasPrefix s pre \<longleftrightarrow> length s \<ge> length pre \<and> take (length pre) s = pre"

text \<open>
  A \<open>github.TreeEntry\<close> has pointer fields, read through getters that give \<open>""\<close> for a nil
  entry or a nil field; a \<open>gitlab.TreeNode\<close> has plain string fields. Only the two fields
  the conversion reads are kept.
\<close>

record GHTreeEntry =
  Path :: "string option"
  Type :: "string option"

definition GetPath :: "GHTreeEntry option \<Rightarrow> string" where
  "GetPath t = (case t of None \<Rightarrow> [] | Some e \<Rightarrow> (case GHTreeEntry.Path e of None \<Rightarrow> [] | Some p \<Rightarrow> p))"

definition GetType :: "GHTreeEntry option \<Rightarrow> string" where
  "GetType t = (case t of None \<Rightarrow> [] | Some e \<Rightarrow> (case GHTreeEntry.Type e of None \<Rightarrow> [] | Some p \<Rightarrow> p))"

record GLTreeNode =
  Path :: string
  Type :: string

text \<open>
  The inner loop over the filters: \<open>skip\<close> becomes true at the first filter and false
  again, ending the loop, at the first filter that matches.
\<close>

fun skipEntry :: "bool \<Rightarrow> Regexp list \<Rightarrow> string \<Rightarrow> bool" where
  "skipEntry skip [] path = skip"
| "skipEntry skip (flt # filters) path =
     (let skip' = (if \<not> skip then True else skip)
      in if flt path then False else skipEntry skip' filters path)"

fun convertGHTreeEntries ::
  "GHTreeEntry option list \<Rightarrow> Regexp list \<Rightarrow> Template list \<Rightarrow> Template list" where
  "convertGHTreeEntries [] filters templates = templates"
| "convertGHTreeEntries (entry # treeEntries) filters templates =
     (if skipEntry False filters (GetPath entry)
      then convertGHTreeEntries treeEntries filters templates
      else
        let isFile = (if GetType entry = ''blob'' then True else False)
        in convertGHTreeEntries treeEntries filters
             (templates @ [\<lparr>IsFile = isFile, Path = [], Destination = GetPath entry,
                            Description = []\<rparr>]))"

definition filterAndConvertGHTreeEntries ::
  "GHTreeEntry option list \<Rightarrow> Regexp list \<Rightarrow> Template list" where
  "filterAndConvertGHTreeEntries treeEntries filters = convertGHTreeEntries treeEntries filters []"

fun convertGLTreeEntries ::
  "GLTreeNode list \<Rightarrow> Regexp list \<Rightarrow> Template list \<Rightarrow> Template list" where
  "convertGLTreeEntries [] filters templates = templates"
| "convertGLTreeEntries (entry # treeEntries) filters templates =
     (if skipEntry False filters (GLTreeNode.Path entry)
      then convertGLTreeEntries treeEntries filters templates
      else
        let isFile = (if GLTreeNode.Type entry = ''blob'' then True else False)
        in convertGLTreeEntries treeEntries filters
             (templates @ [\<lparr>IsFile = isFile, Path = [], Destination = GLTreeNode.Path entry,
                            Description = []\<rparr>]))"

definition filterAndConvertGLTreeEntries ::
  "GLTreeNode list \<Rightarrow> Regexp list \<Rightarrow> Template list" where
  "filterAndConvertGLTreeEntries treeEntries filters = convertGLTreeEntries treeEntries filters []"

text \<open>
  A \<open>repo.Importer\<close> is one of the two platform importers, with the tree entries its
  \<open>LoadTreeEntries\<close> has stored and the name its \<open>Repo\<close> reports, or some other
  implementation of the interface, for which the type switch has no case.
\<close>

datatype Importer =
    GitHub "GHTreeEntry option list" string
  | GitLab "GLTreeNode list" string
  | OtherImporter string

fun Repo :: "Importer \<Rightarrow> string" where
  "Repo (GitHub es r) = r"
| "Repo (GitLab es r) = r"
| "Repo (OtherImporter r) = r"

fun filterAndConvertTreeEntries :: "Importer \<Rightarrow> Regexp list \<Rightarrow> Template list" where
  "filterAndConvertTreeEntries (GitHub TreeEntries r) filters =
     filterAndConvertGHTreeEntries TreeEntries filters"
| "filterAndConvertTreeEntries (GitLab TreeEntries r) filters =
     filterAndConvertGLTreeEntries TreeEntries filters"
| "filterAndConvertTreeEntries (OtherImporter r) filters = []"

section \<open>Importing a package from a directory tree of a repository\<close>

text \<open>
  \<open>path.Base\<close>: the last element of a path, after its trailing slashes are removed;
  \<open>"."\<close> for the empty path and \<open>"/"\<close> for a path of slashes only.
\<close>

definition Base :: "string \<Rightarrow> string" where
  "Base path =
     (if path = [] then ''.''
      else
        let stripped = rev (dropWhile (\<lambda>c. c = CHR ''/'') (rev path));
            lastElem = rev (takeWhile (\<lambda>c. c \<noteq> CHR ''/'') (rev stripped))
        in if lastElem = [] then ''/'' else lastElem)"

definition HasSuffix :: "string \<Rightarrow> string \<Rightarrow> bool" where
  "HasSuffix s suf \<longleftrightarrow> length s \<ge> length suf \<and> drop (length s - length suf) s = suf"

text \<open>
  \<open>ImportFromRepoStructure\<close>. The parameter \<open>loaded\<close> is what \<open>importer.LoadTreeEntries()\<close>
  does: it fails, or it leaves the importer with its tree entries stored. The method
  panics where \<open>pickLabel\<close> does.
\<close>

definition ImportFromRepoStructure ::
  "Package \<Rightarrow> (error + Importer) \<Rightarrow> Regexp list \<Rightarrow> (error + Package) outcome" where
  "ImportFromRepoStructure c loaded filters =
     (case loaded of
        Inl err \<Rightarrow> Returns (Inl err)
      | Inr importer \<Rightarrow>
          let c1 = c\<lparr>Templates := filterAndConvertTreeEntries importer filters\<rparr> in
          if isEmpty c1
          then Returns (Inl (Err ''no relevant data was found. Platform might be unsupported''))
          else
            let name = Base (Repo importer) in
            (case pickLabel name of
               None \<Rightarrow> Panics
             | Some label \<Rightarrow> Returns (Inr (c1\<lparr>Name := name, Label := label\<rparr>))))"

section \<open>Importing one package with its dependencies\<close>

text \<open>
  \<open>ImportFromConfig\<close>. Reading the file is outside the program: \<open>stat\<close> is what
  \<open>os.Stat(path)\<close> gives (an error or the size of the file), and \<open>decoded\<close> is what loading
  and unmarshalling the TOML file gives (an error or the package with the decoded fields).
\<close>

definition ImportFromConfig ::
  "(error + nat) \<Rightarrow> (error + Package) \<Rightarrow> string \<Rightarrow> error + Package" where
  "ImportFromConfig stat decoded path =
     (if \<not> HasSuffix path ''.toml''
      then Inl (Err (''import file has to be of type '' @ [CHR 0x27] @ ''toml'' @ [CHR 0x27]))
      else case stat of
        Inl err \<Rightarrow> Inl err
      | Inr confSize \<Rightarrow>
          if confSize = 0 then Inl (Err ''import file is empty'')
          else (case decoded of
                  Inl err \<Rightarrow> Inl err
                | Inr c \<Rightarrow>
                    if length (Name c) < 1 then Inl (Err ''name cannot be an empty string'')
                    else if length (Label c) < 1 then Inl (Err ''label cannot be an empty string'')
                    else if isEmpty c
                    then Inl (Err ''no relevant data was found. Config might be empty'')
                    else Inr c))"

definition templatesKey :: string where
  "templatesKey = ''templates''"

definition pluginsKey :: string where
  "pluginsKey = ''plugins''"

text \<open>
  \<open>filesToDownload\<close> is a \<open>map[string][]string\<close>; reading a missing key gives the nil
  slice, and \<open>m[k] = append(m[k], x)\<close> is \<open>appendTo\<close>.
\<close>

type_synonym FileMap = "string \<rightharpoonup> string list"

definition lookup :: "FileMap \<Rightarrow> string \<Rightarrow> string list" where
  "lookup m k = (case m k of None \<Rightarrow> [] | Some l \<Rightarrow> l)"

definition appendTo :: "FileMap \<Rightarrow> string \<Rightarrow> string \<Rightarrow> FileMap" where
  "appendTo m k x = m(k \<mapsto> lookup m k @ [x])"

text \<open>
  The inner loop of \<open>ImportFromRepo\<close> over the filtered tree entries. Its loop variable
  is called \<open>template\<close> like the one of the outer loop and shadows it: both
  \<open>template.Destination\<close> and \<open>template.Path\<close> are fields of the tree entry.
\<close>

fun queueTreeTemplates :: "Template list \<Rightarrow> FileMap \<Rightarrow> FileMap outcome" where
  "queueTreeTemplates [] filesToDownload = Returns filesToDownload"
| "queueTreeTemplates (template # templates) filesToDownload =
     (case slice_from (Template.Destination template) (length ''templates/'') of
        None \<Rightarrow> Panics
      | Some trimmedFilePath \<Rightarrow>
          if HasPrefix trimmedFilePath (Template.Path template)
          then queueTreeTemplates templates (appendTo filesToDownload templatesKey trimmedFilePath)
          else queueTreeTemplates templates filesToDownload)"

text \<open>
  The outer loop over the templates of the package. \<open>memo\<close> is \<open>None\<close> while \<open>rex\<close> is nil,
  and holds the filtered tree entries afterwards; \<open>loaded\<close> is what
  \<open>importer.LoadTreeEntries()\<close> does, as above.
\<close>

fun queueTemplates ::
  "(error + Importer) \<Rightarrow> string \<Rightarrow> Template list \<Rightarrow> Template list option \<Rightarrow> FileMap
     \<Rightarrow> (error + FileMap) outcome" where
  "queueTemplates loaded name [] memo filesToDownload = Returns (Inr filesToDownload)"
| "queueTemplates loaded name (template # rest) memo filesToDownload =
     (if Template.Path template = [] then queueTemplates loaded name rest memo filesToDownload
      else
        case (case memo of
                Some templates \<Rightarrow> Inr templates
              | None \<Rightarrow>
                  (case loaded of
                     Inl err \<Rightarrow> Inl err
                   | Inr importer \<Rightarrow> Inr (filterAndConvertTreeEntries importer [rex_templates]))) of
          Inl err \<Rightarrow> Returns (Inl err)
        | Inr templates \<Rightarrow>
            if length templates < 1
            then Returns (Inl (Err (''no templates were found in repo but package '' @ name
                                    @ '' requires templates'')))
            else (case queueTreeTemplates templates filesToDownload of
                    Returns filesToDownload' \<Rightarrow>
                      queueTemplates loaded name rest (Some templates) filesToDownload'
                  | Panics \<Rightarrow> Panics
                  | Blocks \<Rightarrow> Blocks))"

text \<open>The list of files to download: lines 190 to 229 of \<open>package.go\<close>.\<close>

definition collectFilesToDownload :: "(error + Importer) \<Rightarrow> Package \<Rightarrow> (error + FileMap) outcome" where
  "collectFilesToDownload loaded c =
     (case queueTemplates loaded (Name c) (Templates c) None Map.empty of
        Returns (Inr m) \<Rightarrow>
          Returns (Inr (foldl (\<lambda>m plugin. appendTo m pluginsKey (Plugin.Path plugin))
                          (foldl (\<lambda>m template. appendTo m templatesKey (Template.Path template))
                             m (Templates c))
                          (Plugins c)))
      | other \<Rightarrow> other)"

text \<open>
  The downloads run in one goroutine per file. A goroutine takes two steps on the shared
  memory: it assigns the result of \<open>util.DownloadFileIfNotExists\<close> to \<open>err\<close>, which is
  the variable of the enclosing function and so the same for all goroutines, and it then
  reads \<open>err\<close>, sends it to the channel when it is not nil, and calls \<open>wg.Done()\<close>. The
  channel has room for one error per file, so no send blocks.
\<close>

record FetchState =
  err :: "error option"
  pc :: "nat list"
  errs :: "error list"
  wg :: int

text \<open>
  \<open>download i fileType file\<close> is what the download of goroutine \<open>i\<close> returns; the
  goroutines are numbered in the order of their start.
\<close>

definition fetchStep ::
  "(nat \<Rightarrow> string \<Rightarrow> string \<Rightarrow> error option) \<Rightarrow> (string \<times> string) list \<Rightarrow> FetchState \<Rightarrow> nat
     \<Rightarrow> FetchState" where
  "fetchStep download tasks st i =
     (if i \<ge> length tasks then st
      else if pc st ! i = 0
      then st\<lparr>err := download i (fst (tasks ! i)) (snd (tasks ! i)), pc := (pc st)[i := 1]\<rparr>
      else if pc st ! i = 1
      then st\<lparr>errs := (case err st of None \<Rightarrow> errs st | Some e \<Rightarrow> errs st @ [e]),
              pc := (pc st)[i := 2], wg := wg st - 1\<rparr>
      else st)"

text \<open>
  The loop over the channel after \<open>wg.Wait()\<close>: one line per error received, and an
  error value only if the text is not empty.
\<close>

definition joinErrors :: "error list \<Rightarrow> error option" where
  "joinErrors es =
     (let errMsg = concat (map (\<lambda>e. Error e @ [CHR 0x0A]) es)
      in if length errMsg > 0 then Some (Err errMsg) else None)"

text \<open>
  The fan-out: lines 236 to 268. \<open>sched\<close> is the order in which the scheduler lets the
  goroutines take their steps, each number standing for one step of that goroutine; every
  goroutine that \<open>sched\<close> leaves unfinished runs to its end afterwards, so every schedule
  is a complete run. \<open>wg.Wait()\<close> returns when the counter is zero. The loop over the
  map starts the goroutines of one key after those of the other, in either order; the
  order of the start only numbers the goroutines.
\<close>

definition fetchFiles ::
  "(nat \<Rightarrow> string \<Rightarrow> string \<Rightarrow> error option) \<Rightarrow> nat list \<Rightarrow> FileMap \<Rightarrow> error option outcome" where
  "fetchFiles download sched filesToDownload =
     (let numFiles = length (lookup filesToDownload templatesKey)
                       + length (lookup filesToDownload pluginsKey);
          tasks = concat (map (\<lambda>fileType. map (\<lambda>file. (fileType, file))
                                  (lookup filesToDownload fileType))
                           [templatesKey, pluginsKey]);
          st0 = \<lparr>err = None, pc = replicate (length tasks) 0, errs = [], wg = int numFiles\<rparr>;
          st = foldl (fetchStep download tasks) st0
                 (sched @ concat (map (\<lambda>i. [i, i]) [0..<length tasks]))
      in if wg st = 0 then Returns (joinErrors (errs st)) else Blocks)"

text \<open>
  \<open>ImportFromRepo\<close>. What the network and the file system do is in \<open>ImportEnv\<close>: the
  download of the config file, its size and decoding, the loading of the tree, each
  download of a dependency, and the schedule of the goroutines.
\<close>

record ImportEnv =
  downloadConfig :: "error option"
  statConfig :: "error + nat"
  decodeConfig :: "error + Package"
  configFile :: string
  loadTree :: "error + Importer"
  download :: "nat \<Rightarrow> string \<Rightarrow> string \<Rightarrow> error option"
  sched :: "nat list"

definition ImportFromRepo :: "ImportEnv \<Rightarrow> (error + Package) outcome" where
  "ImportFromRepo env =
     (case downloadConfig env of
        Some e \<Rightarrow> Returns (Inl e)
      | None \<Rightarrow>
          (case ImportFromConfig (statConfig env) (decodeConfig env) (configFile env) of
             Inl e \<Rightarrow> Returns (Inl e)
           | Inr c \<Rightarrow>
               (case collectFilesToDownload (loadTree env) c of
                  Returns (Inl e) \<Rightarrow> Returns (Inl e)
                | Returns (Inr filesToDownload) \<Rightarrow>
                    (case fetchFiles (download env) (sched env) filesToDownload of
                       Returns None \<Rightarrow> Returns (Inr c)
                     | Returns (Some e) \<Rightarrow> Returns (Inl e)
                     | Panics \<Rightarrow> Panics
                     | Blocks \<Rightarrow> Blocks)
                | Panics \<Rightarrow> Panics
                | Blocks \<Rightarrow> Blocks)))"

section \<open>Importing a collection\<close>

text \<open>
  The goroutines of \<open>ImportCollectionFromRepo\<close> share no variable: each one sends its
  package or its error and calls \<open>wg.Done()\<close>, in one step. \<open>completionOrder\<close> puts them
  in the order the schedule names them, those it does not name last.
\<close>

definition completionOrder :: "nat list \<Rightarrow> 'a list \<Rightarrow> 'a list" where
  "completionOrder schedule xs =
     (let named = remdups (filter (\<lambda>i. i < length xs) schedule)
      in map (\<lambda>i. xs ! i) (named @ filter (\<lambda>i. i \<notin> set named) [0..<length xs]))"

record CollectState =
  packageChannel :: "Package list"
  errs :: "error list"
  wg :: int

text \<open>
  One goroutine finishing. A goroutine that panics ends the program; one that blocks
  never calls \<open>wg.Done()\<close>.
\<close>

fun collect :: "(error + Package) outcome list \<Rightarrow> CollectState \<Rightarrow> CollectState outcome" where
  "collect [] st = Returns st"
| "collect (Returns (Inl e) # rs) st =
     collect rs (st\<lparr>CollectState.errs := CollectState.errs st @ [e],
                    CollectState.wg := CollectState.wg st - 1\<rparr>)"
| "collect (Returns (Inr pkg) # rs) st =
     collect rs (st\<lparr>packageChannel := packageChannel st @ [pkg],
                    CollectState.wg := CollectState.wg st - 1\<rparr>)"
| "collect (Panics # rs) st = Panics"
| "collect (Blocks # rs) st = collect rs st"

text \<open>
  The body of a goroutine: \<open>ParseURL\<close> is what \<open>repo.ParseURL\<close> says of the address, and
  \<open>envs i\<close> is the environment of the import that goroutine \<open>i\<close> runs.
\<close>

definition importTask ::
  "(string \<Rightarrow> error option) \<Rightarrow> (nat \<Rightarrow> ImportEnv) \<Rightarrow> string \<Rightarrow> nat \<Rightarrow> Template
     \<Rightarrow> (error + Package) outcome" where
  "importTask ParseURL envs collectionURL i template =
     (case ParseURL (collectionURL @ ''/'' @ Template.Destination template) of
        Some e \<Rightarrow> Returns (Inl e)
      | None \<Rightarrow> ImportFromRepo (envs i))"

definition ImportCollectionFromRepo ::
  "string \<Rightarrow> (error + Importer) \<Rightarrow> (string \<Rightarrow> error option) \<Rightarrow> (nat \<Rightarrow> ImportEnv) \<Rightarrow> nat list
     \<Rightarrow> (Package list \<times> error option) outcome" where
  "ImportCollectionFromRepo collectionURL loaded ParseURL envs schedule =
     (case ImportFromRepoStructure (NewPackage [] [] False) loaded [rex_configs] of
        Panics \<Rightarrow> Panics
      | Blocks \<Rightarrow> Blocks
      | Returns (Inl e) \<Rightarrow> Returns ([], Some e)
      | Returns (Inr c) \<Rightarrow>
          if isEmpty c then Returns ([], Some (Err ''no configs were found''))
          else
            let numFiles = length (Templates c);
                st0 = \<lparr>packageChannel = [], errs = [], wg = int numFiles\<rparr>;
                started = filter IsFile (Templates c);
                results = map (\<lambda>i. importTask ParseURL envs collectionURL i (started ! i))
                            [0..<length started]
            in (case collect (completionOrder schedule results) st0 of
                  Panics \<Rightarrow> Panics
                | Blocks \<Rightarrow> Blocks
                | Returns st \<Rightarrow>
                    if CollectState.wg st = 0
                    then Returns (packageChannel st, joinErrors (CollectState.errs st))
                    else Blocks))"

section \<open>Creating a project\<close>

text \<open>
  Modelled from the spec: the declaration of \<open>Class\<close>, the package type of \<open>project.go\<close>,
  and of its plugins is not among the sources. A class owns its templates and plugins, as
  the spec's package does; the fields are the ones \<open>project.go\<close> reads, a plugin being
  named by \<open>Name\<close> there.
\<close>

record ClassPlugin =
  Name :: string
  ExecNumber :: int

record Class =
  Templates :: "Template list"
  Plugins :: "ClassPlugin list"

record Project =
  Name :: string
  Path :: string
  Class :: Class

text \<open>
  The process and the file system. \<open>wd\<close> is the working directory of the process, the
  directory named in its last successful \<open>os.Chdir\<close>; \<open>files\<close> gives the content of the
  regular file a name denotes, if it denotes one; \<open>calls\<close> is the record of the calls made
  to the operating system, in order.
\<close>

datatype call =
    Mkdir string
  | Chdir string
  | Copy string string
  | CreateFile string
  | MkdirAll string
  | Run string

record World =
  wd :: string
  files :: "string \<rightharpoonup> string"
  calls :: "call list"

text \<open>
  What lies outside the program: whether a call fails, what a recursive copy and a
  plugin leave in the files (a child process cannot change the working directory of its
  parent, and \<open>copy.Copy\<close> does not change it), and the path \<open>filepath.Join\<close> makes of
  its elements.
\<close>

record Env =
  Mkdir_result :: "string \<Rightarrow> World \<Rightarrow> error option"
  Chdir_result :: "string \<Rightarrow> World \<Rightarrow> error option"
  Create_result :: "string \<Rightarrow> World \<Rightarrow> error option"
  MkdirAll_result :: "string \<Rightarrow> World \<Rightarrow> error option"
  Copy_result :: "string \<Rightarrow> string \<Rightarrow> World \<Rightarrow> error option \<times> (string \<rightharpoonup> string)"
  Run_result :: "string \<Rightarrow> World \<Rightarrow> error option \<times> (string \<rightharpoonup> string)"
  Join :: "string list \<Rightarrow> string"

definition os_Mkdir :: "Env \<Rightarrow> string \<Rightarrow> World \<Rightarrow> error option \<times> World" where
  "os_Mkdir env name w = (Mkdir_result env name w, w\<lparr>calls := calls w @ [Mkdir name]\<rparr>)"

text \<open>\<open>os.Chdir\<close> changes the working directory when it succeeds.\<close>

definition os_Chdir :: "Env \<Rightarrow> string \<Rightarrow> World \<Rightarrow> error option \<times> World" where
  "os_Chdir env dir w =
     (case Chdir_result env dir w of
        Some e \<Rightarrow> (Some e, w\<lparr>calls := calls w @ [Chdir dir]\<rparr>)
      | None \<Rightarrow> (None, w\<lparr>wd := dir, calls := calls w @ [Chdir dir]\<rparr>))"

text \<open>\<open>os.Create\<close> creates the named file or truncates it: the file is empty afterwards.\<close>

definition os_Create :: "Env \<Rightarrow> string \<Rightarrow> World \<Rightarrow> error option \<times> World" where
  "os_Create env name w =
     (case Create_result env name w of
        Some e \<Rightarrow> (Some e, w\<lparr>calls := calls w @ [CreateFile name]\<rparr>)
      | None \<Rightarrow> (None, w\<lparr>files := (files w)(name \<mapsto> []), calls := calls w @ [CreateFile name]\<rparr>))"

definition os_MkdirAll :: "Env \<Rightarrow> string \<Rightarrow> World \<Rightarrow> error option \<times> World" where
  "os_MkdirAll env name w = (MkdirAll_result env name w, w\<lparr>calls := calls w @ [MkdirAll name]\<rparr>)"

definition copy_Copy :: "Env \<Rightarrow> string \<Rightarrow> string \<Rightarrow> World \<Rightarrow> error option \<times> World" where
  "copy_Copy env src dst w =
     (case Copy_result env src dst w of
        (r, fs) \<Rightarrow> (r, w\<lparr>files := fs, calls := calls w @ [Copy src dst]\<rparr>))"

definition runPlugin :: "Env \<Rightarrow> string \<Rightarrow> World \<Rightarrow> error option \<times> World" where
  "runPlugin env pluginPath w =
     (case Run_result env pluginPath w of
        (r, fs) \<Rightarrow> (r, w\<lparr>files := fs, calls := calls w @ [Run pluginPath]\<rparr>))"

definition createProjectFolder :: "Env \<Rightarrow> Project \<Rightarrow> World \<Rightarrow> error option \<times> World" where
  "createProjectFolder env p w = os_Mkdir env (Project.Name p) w"

text \<open>The body of the loop of \<open>createFilesAndFolders\<close>, for one template.\<close>

definition writeTemplate :: "Env \<Rightarrow> string \<Rightarrow> Template \<Rightarrow> World \<Rightarrow> error option \<times> World" where
  "writeTemplate env templatePath template w =
     (case (if length (Template.Path template) > 0
            then copy_Copy env (Join env [templatePath, ''/'', Template.Path template])
                   (Template.Destination template) w
            else (None, w)) of
        (Some e, w1) \<Rightarrow> (Some e, w1)
      | (None, w1) \<Rightarrow>
          if IsFile template then os_Create env (Template.Destination template) w1
          else os_MkdirAll env (Template.Destination template) w1)"

fun writeTemplates :: "Env \<Rightarrow> string \<Rightarrow> Template list \<Rightarrow> World \<Rightarrow> error option \<times> World" where
  "writeTemplates env templatePath [] w = (None, w)"
| "writeTemplates env templatePath (template # templates) w =
     (case writeTemplate env templatePath template w of
        (Some e, w1) \<Rightarrow> (Some e, w1)
      | (None, w1) \<Rightarrow> writeTemplates env templatePath templates w1)"

definition createFilesAndFolders ::
  "Env \<Rightarrow> Project \<Rightarrow> string \<Rightarrow> World \<Rightarrow> error option \<times> World" where
  "createFilesAndFolders env p configPath w =
     (let templatePath = Join env [configPath, ''/templates/'']
      in writeTemplates env templatePath (Templates (Class p)) w)"

fun preRun :: "Env \<Rightarrow> string \<Rightarrow> ClassPlugin list \<Rightarrow> World \<Rightarrow> error option \<times> World" where
  "preRun env configPath [] w = (None, w)"
| "preRun env configPath (plugin # plugins) w =
     (if ExecNumber plugin \<ge> 0 then preRun env configPath plugins w
      else
        let pluginPath = Join env [configPath, ''/plugins/'', ClassPlugin.Name plugin]
        in (case runPlugin env pluginPath w of
              (Some e, w1) \<Rightarrow> (Some e, w1)
            | (None, w1) \<Rightarrow> preRun env configPath plugins w1))"

definition preRunPlugins :: "Env \<Rightarrow> Project \<Rightarrow> string \<Rightarrow> World \<Rightarrow> error option \<times> World" where
  "preRunPlugins env p configPath w = preRun env configPath (Plugins (Class p)) w"

fun postRun :: "Env \<Rightarrow> string \<Rightarrow> ClassPlugin list \<Rightarrow> World \<Rightarrow> error option \<times> World" where
  "postRun env configPath [] w = (None, w)"
| "postRun env configPath (plugin # plugins) w =
     (if ExecNumber plugin \<le> 0 then postRun env configPath plugins w
      else
        let pluginPath = Join env [configPath, ''/plugins/'', ClassPlugin.Name plugin]
        in (case runPlugin env pluginPath w of
              (Some e, w1) \<Rightarrow> (Some e, w1)
            | (None, w1) \<Rightarrow> postRun env configPath plugins w1))"

definition postRunPlugins :: "Env \<Rightarrow> Project \<Rightarrow> string \<Rightarrow> World \<Rightarrow> error option \<times> World" where
  "postRunPlugins env p configPath w = postRun env configPath (Plugins (Class p)) w"

text \<open>
  \<open>Create\<close>. The slice \<open>cwd[:len(cwd)-1]\<close> is taken after the change into the project
  folder and before the \<open>defer\<close> statement; the deferred \<open>os.Chdir(cwd)\<close> runs when the
  function returns, whatever it returns, and its own result is dropped.
\<close>

definition Create ::
  "Env \<Rightarrow> Project \<Rightarrow> string \<Rightarrow> string \<Rightarrow> World \<Rightarrow> error option outcome \<times> World" where
  "Create env p cwd configPath w =
     (case createProjectFolder env p w of
        (Some e, w1) \<Rightarrow> (Returns (Some e), w1)
      | (None, w1) \<Rightarrow>
          (case os_Chdir env (Project.Name p) w1 of
             (Some e, w2) \<Rightarrow> (Returns (Some e), w2)
           | (None, w2) \<Rightarrow>
               (case slice_to cwd (int (length cwd) - 1) of
                  None \<Rightarrow> (Panics, w2)
                | Some front \<Rightarrow>
                    let cwd' = (if front \<noteq> ''/'' then cwd @ ''/'' else cwd);
                        (r, w3) =
                          (case preRunPlugins env p configPath w2 of
                             (Some e, w') \<Rightarrow> (Some e, w')
                           | (None, w') \<Rightarrow>
                               (case createFilesAndFolders env p configPath w' of
                                  (Some e, w'') \<Rightarrow> (Some e, w'')
                                | (None, w'') \<Rightarrow> postRunPlugins env p configPath w''));
                        (r', w4) = os_Chdir env cwd' w3
                    in (Returns r, w4))))"

section \<open>Example inputs\<close>

text \<open>
  A collection with one package: its config decodes to a package with two plugins, and
  every download succeeds.
\<close>

definition twoPlugins :: Package where
  "twoPlugins =
     \<lparr>Package.Name = ''demo'', Label = ''dmo'', Description = [], Templates = [],
      Plugins = [\<lparr>Plugin.Path = ''p1'', ExecNumber = - 1, Description = []\<rparr>,
                 \<lparr>Plugin.Path = ''p2'', ExecNumber = 1, Description = []\<rparr>],
      IsDefault = False\<rparr>"

definition goodImport :: ImportEnv where
  "goodImport =
     \<lparr>downloadConfig = None, statConfig = Inr 120, decodeConfig = Inr twoPlugins,
      configFile = ''/tmp/proji/configs/a.toml'', loadTree = Inl (Err ''not used''),
      download = (\<lambda>i fileType file. None), sched = []\<rparr>"

text \<open>
  A project of one file template with a source in the template store, one plugin for
  each sign of \<open>ExecNumber\<close> and one with \<open>ExecNumber = 0\<close>. In \<open>demoEnv\<close> every call
  succeeds, a copy leaves the text of the source in the destination, a plugin leaves the
  files as they are, and \<open>demoJoin\<close> joins its elements as \<open>filepath.Join\<close> joins the
  elements of the example.
\<close>

definition demoProject :: Project where
  "demoProject =
     \<lparr>Project.Name = ''demo'', Path = ''/home/u/demo'',
      Class = \<lparr>Class.Templates =
                 [\<lparr>IsFile = True, Path = ''main.go'', Destination = ''src.go'',
                   Description = []\<rparr>],
               Plugins = [\<lparr>ClassPlugin.Name = ''post2'', ExecNumber = 2\<rparr>,
                          \<lparr>ClassPlugin.Name = ''pre2'', ExecNumber = - 2\<rparr>,
                          \<lparr>ClassPlugin.Name = ''zero'', ExecNumber = 0\<rparr>,
                          \<lparr>ClassPlugin.Name = ''post1'', ExecNumber = 1\<rparr>,
                          \<lparr>ClassPlugin.Name = ''pre1'', ExecNumber = - 1\<rparr>]\<rparr>\<rparr>"

definition demoJoin :: "string list \<Rightarrow> string" where
  "demoJoin elems =
     concat (map (\<lambda>e. CHR ''/'' # e)
               (filter (\<lambda>e. e \<noteq> [])
                  (map (\<lambda>e. rev (dropWhile (\<lambda>c. c = CHR ''/'') (rev (dropWhile (\<lambda>c. c = CHR ''/'') e))))
                     elems)))"

definition demoEnv :: Env where
  "demoEnv =
     \<lparr>Mkdir_result = (\<lambda>name w. None), Chdir_result = (\<lambda>dir w. None),
      Create_result = (\<lambda>name w. None), MkdirAll_result = (\<lambda>name w. None),
      Copy_result = (\<lambda>src dst w. (None, (files w)(dst \<mapsto> ''package main''))),
      Run_result = (\<lambda>pluginPath w. (None, files w)),
      Join = demoJoin\<rparr>"

definition demoWorld :: World where
  "demoWorld = \<lparr>wd = ''/home/u'', files = Map.empty, calls = []\<rparr>"

section \<open>The label of a package\<close>

text \<open>
  C3, as the code has it: \<open>pickLabel\<close> gives \<open>mca\<close> for \<open>my-cool-app\<close> and for \<open>MyCoolApp\<close>,
  \<open>x\<close> for \<open>x\<close>, and \<open>abb\<close> for \<open>ab\<close>: a name of two bytes without separator and with
  one upper case run gets its first, middle and last byte, and the middle byte of a name
  of two bytes is its last one.
\<close>

theorem pickLabel_examples:
  "pickLabel ''my-cool-app'' = Some ''mca'' \<and> pickLabel ''MyCoolApp'' = Some ''mca''
   \<and> pickLabel ''ab'' = Some ''abb'' \<and> pickLabel ''x'' = Some ''x''"
  by code_simp

text \<open>
  C3, as the spec states it, fails at its third example: the label of \<open>ab\<close> is not \<open>ab\<close>.
\<close>

theorem pickLabel_ab_counterexample:
  "\<not> (pickLabel ''my-cool-app'' = Some ''mca'' \<and> pickLabel ''MyCoolApp'' = Some ''mca''
      \<and> pickLabel ''ab'' = Some ''ab'' \<and> pickLabel ''x'' = Some ''x'')"
  by code_simp

text \<open>
  C4: \<open>pickLabel\<close> does not return for every non-empty name. A name with an empty part
  between, before or after its separators, such as \<open>a-\<close>, \<open>my--app\<close> or the directory
  name \<open>.git\<close>, makes \<open>part[0]\<close> read an empty string, and the call panics.
\<close>

theorem pickLabel_panics_on_empty_part:
  "pickLabel ''a-'' = None \<and> pickLabel ''my--app'' = None \<and> pickLabel ''.git'' = None"
  by code_simp

section \<open>The conversion of tree entries\<close>

lemma skipEntry_True:
  "skipEntry True filters path \<longleftrightarrow> \<not> list_ex (\<lambda>f. f path) filters"
  by (induction filters) auto

lemma skipEntry_False:
  "skipEntry False filters path \<longleftrightarrow> filters \<noteq> [] \<and> \<not> list_ex (\<lambda>f. f path) filters"
  by (cases filters) (auto simp: skipEntry_True)

lemma convertGHTreeEntries_append:
  "convertGHTreeEntries es fs acc =
     acc @ map (\<lambda>e. \<lparr>IsFile = (GetType e = ''blob''), Path = [], Destination = GetPath e,
                      Description = []\<rparr>)
             (filter (\<lambda>e. fs = [] \<or> list_ex (\<lambda>f. f (GetPath e)) fs) es)"
  by (induction es arbitrary: acc) (auto simp: skipEntry_False)

lemma convertGLTreeEntries_append:
  "convertGLTreeEntries es fs acc =
     acc @ map (\<lambda>e. \<lparr>IsFile = (GLTreeNode.Type e = ''blob''), Path = [],
                      Destination = GLTreeNode.Path e, Description = []\<rparr>)
             (filter (\<lambda>e. fs = [] \<or> list_ex (\<lambda>f. f (GLTreeNode.Path e)) fs) es)"
  by (induction es arbitrary: acc) (auto simp: skipEntry_False)

text \<open>
  C7: both conversions keep exactly the entries for which the list of filters is empty
  or some filter has a match in the path, in the order of the input; a kept entry becomes
  the template with \<open>IsFile\<close> true exactly for the type \<open>blob\<close>, an empty \<open>Path\<close> and the
  path of the entry as \<open>Destination\<close>; without filters the output is as long as the input.
\<close>

theorem tree_filter_convert:
  "filterAndConvertGHTreeEntries ghEntries filters =
     map (\<lambda>e. \<lparr>IsFile = (GetType e = ''blob''), Path = [], Destination = GetPath e,
                Description = []\<rparr>)
       (filter (\<lambda>e. filters = [] \<or> list_ex (\<lambda>f. f (GetPath e)) filters) ghEntries)
   \<and> filterAndConvertGLTreeEntries glEntries filters =
     map (\<lambda>e. \<lparr>IsFile = (GLTreeNode.Type e = ''blob''), Path = [],
                Destination = GLTreeNode.Path e, Description = []\<rparr>)
       (filter (\<lambda>e. filters = [] \<or> list_ex (\<lambda>f. f (GLTreeNode.Path e)) filters) glEntries)
   \<and> length (filterAndConvertGHTreeEntries ghEntries []) = length ghEntries
   \<and> length (filterAndConvertGLTreeEntries glEntries []) = length glEntries"
  by (simp add: filterAndConvertGHTreeEntries_def filterAndConvertGLTreeEntries_def
      convertGHTreeEntries_append convertGLTreeEntries_append)

theorem tree_filter_convert_witness:
  "filterAndConvertGLTreeEntries
     [\<lparr>GLTreeNode.Path = ''README.md'', Type = ''blob''\<rparr>,
      \<lparr>GLTreeNode.Path = ''templates/go'', Type = ''tree''\<rparr>,
      \<lparr>GLTreeNode.Path = ''templates/go/main.go'', Type = ''blob''\<rparr>]
     [rex_configs, rex_templates] =
   [\<lparr>IsFile = False, Path = [], Destination = ''templates/go'', Description = []\<rparr>,
    \<lparr>IsFile = True, Path = [], Destination = ''templates/go/main.go'', Description = []\<rparr>]"
  using tree_filter_convert [of "[]" "[rex_configs, rex_templates]"
      "[\<lparr>GLTreeNode.Path = ''README.md'', Type = ''blob''\<rparr>,
        \<lparr>GLTreeNode.Path = ''templates/go'', Type = ''tree''\<rparr>,
        \<lparr>GLTreeNode.Path = ''templates/go/main.go'', Type = ''blob''\<rparr>]"]
  by (simp add: rex_configs_def rex_templates_def)

section \<open>The files a package import downloads\<close>

text \<open>
  C1: the queue does not depend on the declared \<open>Template.Path\<close>. The package declares
  one template with the path \<open>a\<close> and the tree has the one entry \<open>templates/b/file\<close>; the
  entry is queued as \<open>b/file\<close>, which does not start with \<open>a\<close>. The prefix test reads the
  \<open>Path\<close> of the tree entry, which is empty, and not that of the declared template.
\<close>

theorem queue_ignores_declared_path:
  "(case queueTemplates
           (Inr (GitLab [\<lparr>GLTreeNode.Path = ''templates/b/file'', Type = ''blob''\<rparr>] ''u/repo''))
           ''pkg''
           [\<lparr>IsFile = True, Path = ''a'', Destination = ''x'', Description = []\<rparr>]
           None Map.empty of
      Returns (Inr m) \<Rightarrow> lookup m templatesKey = [''b/file'']
    | _ \<Rightarrow> False)
   \<and> \<not> HasPrefix ''b/file'' ''a''"
  by code_simp

text \<open>
  C8: a failed download can go unreported. Two files are queued, the download of the
  first fails and that of the second succeeds. When both goroutines assign \<open>err\<close> before
  either reads it, the first one reads the nil of the second and sends nothing, and the
  call returns nil; when the first goroutine runs to its end before the second starts,
  the call returns the one line of the failure.
\<close>

theorem fetch_failure_lost:
  "fetchFiles (\<lambda>i fileType file. if file = ''p1'' then Some (Err ''404'') else None)
     [0, 1, 0, 1] [pluginsKey \<mapsto> [''p1'', ''p2'']] = Returns None
   \<and> fetchFiles (\<lambda>i fileType file. if file = ''p1'' then Some (Err ''404'') else None)
     [0, 0, 1, 1] [pluginsKey \<mapsto> [''p1'', ''p2'']] = Returns (Some (Err (''404'' @ [CHR 0x0A])))"
  by code_simp

section \<open>The import of a collection\<close>

text \<open>
  A collection whose entries under \<open>configs/\<close> are all files is imported: the call
  returns the package of its one config.
\<close>

lemma collection_of_files_returns:
  "ImportCollectionFromRepo ''https://gitlab.com/u/coll''
     (Inr (GitLab [\<lparr>GLTreeNode.Path = ''README.md'', Type = ''blob''\<rparr>,
                   \<lparr>GLTreeNode.Path = ''configs'', Type = ''tree''\<rparr>,
                   \<lparr>GLTreeNode.Path = ''configs/a.toml'', Type = ''blob''\<rparr>] ''u/coll''))
     (\<lambda>u. None) (\<lambda>i. goodImport) [0] = Returns ([twoPlugins], None)"
  by code_simp

lemma completionOrder_single:
  "completionOrder schedule [x] = [x]"
proof -
  define named where "named = remdups (filter (\<lambda>i. i < length [x]) schedule)"
  have eq: "completionOrder schedule [x]
              = map (\<lambda>i. [x] ! i) (named @ filter (\<lambda>i. i \<notin> set named) [0..<length [x]])"
    unfolding completionOrder_def Let_def named_def by (rule refl)
  have d: "distinct named" and s: "set named \<subseteq> {0}"
    by (auto simp: named_def)
  have "named = [] \<or> named = [0]"
  proof (cases named)
    case Nil
    then show ?thesis by simp
  next
    case (Cons a rest)
    with s have a: "a = 0" and r: "set rest \<subseteq> {0}" by auto
    from d Cons a have "0 \<notin> set rest" by auto
    with r have "rest = []" by (cases rest) auto
    with Cons a show ?thesis by simp
  qed
  then show ?thesis
  proof
    assume "named = []"
    with eq show ?thesis by simp
  next
    assume "named = [0]"
    with eq show ?thesis by simp
  qed
qed

text \<open>
  A collection with a directory under \<open>configs/\<close>: whatever the schedule, the check
  of the address and the import of the one config do, the call does not return.
\<close>

lemma structure_of_example:
  "ImportFromRepoStructure (NewPackage [] [] False)
     (Inr (GitLab [\<lparr>GLTreeNode.Path = ''configs/more'', Type = ''tree''\<rparr>,
                   \<lparr>GLTreeNode.Path = ''configs/a.toml'', Type = ''blob''\<rparr>] ''u/coll''))
     [rex_configs]
   = Returns (Inr \<lparr>Package.Name = ''coll'', Label = ''cll'', Description = [],
        Templates = [\<lparr>IsFile = False, Path = [], Destination = ''configs/more'', Description = []\<rparr>,
                     \<lparr>IsFile = True, Path = [], Destination = ''configs/a.toml'', Description = []\<rparr>],
        Plugins = [], IsDefault = False\<rparr>)"
  by code_simp

lemma collection_with_directory_never_returns:
  "ImportCollectionFromRepo collectionURL
     (Inr (GitLab [\<lparr>GLTreeNode.Path = ''configs/more'', Type = ''tree''\<rparr>,
                   \<lparr>GLTreeNode.Path = ''configs/a.toml'', Type = ''blob''\<rparr>] ''u/coll''))
     ParseURL envs schedule \<noteq> Returns res"
proof -
  let ?t = "\<lparr>IsFile = True, Path = [], Destination = ''configs/a.toml'', Description = []\<rparr>"
  show ?thesis
  proof (cases "importTask ParseURL envs collectionURL 0 ?t")
    case (Returns x)
    then show ?thesis
      by (cases x)
        (simp_all add: ImportCollectionFromRepo_def structure_of_example isEmpty_def Let_def
          completionOrder_single)
  next
    case Panics
    then show ?thesis
      by (simp add: ImportCollectionFromRepo_def structure_of_example isEmpty_def Let_def
          completionOrder_single)
  next
    case Blocks
    then show ?thesis
      by (simp add: ImportCollectionFromRepo_def structure_of_example isEmpty_def Let_def
          completionOrder_single)
  qed
qed

text \<open>
  C2: the call does not return for every collection with an entry under \<open>configs/\<close>.
  With a directory \<open>configs/more\<close> beside the config \<open>configs/a.toml\<close> the counter of the
  wait group starts at two, one goroutine is started, and \<open>wg.Wait()\<close> never returns,
  although the one import succeeds.
\<close>

theorem collection_with_directory_blocks:
  "ImportCollectionFromRepo ''https://gitlab.com/u/coll''
     (Inr (GitLab [\<lparr>GLTreeNode.Path = ''configs/more'', Type = ''tree''\<rparr>,
                   \<lparr>GLTreeNode.Path = ''configs/a.toml'', Type = ''blob''\<rparr>] ''u/coll''))
     (\<lambda>u. None) (\<lambda>i. goodImport) [0] = Blocks"
  by code_simp

section \<open>The plugins of a project\<close>

lemma runPlugin_calls:
  "runPlugin env path w = (r, w') \<Longrightarrow> calls w' = calls w @ [Run path] \<and> wd w' = wd w"
  by (auto simp: runPlugin_def split: prod.splits)

lemma preRun_calls:
  "preRun env cfg ps w = (r, w') \<Longrightarrow>
     \<exists>ran. calls w' = calls w @ ran
       \<and> prefix ran (map (\<lambda>pl. Run (Join env [cfg, ''/plugins/'', ClassPlugin.Name pl]))
                      (filter (\<lambda>pl. ExecNumber pl < 0) ps))
       \<and> (r = None \<longrightarrow> ran = map (\<lambda>pl. Run (Join env [cfg, ''/plugins/'', ClassPlugin.Name pl]))
                      (filter (\<lambda>pl. ExecNumber pl < 0) ps))"
proof (induction ps arbitrary: w)
  case Nil
  then show ?case by simp
next
  case (Cons pl ps)
  show ?case
  proof (cases "ExecNumber pl \<ge> 0")
    case True
    with Cons show ?thesis by simp
  next
    case False
    let ?path = "Join env [cfg, ''/plugins/'', ClassPlugin.Name pl]"
    obtain r1 w1 where run: "runPlugin env ?path w = (r1, w1)"
      by (cases "runPlugin env ?path w")
    then have c1: "calls w1 = calls w @ [Run ?path]"
      by (simp add: runPlugin_calls)
    show ?thesis
    proof (cases r1)
      case None
      with Cons.prems False run have "preRun env cfg ps w1 = (r, w')" by simp
      from Cons.IH [OF this] obtain ran where
        "calls w' = calls w1 @ ran"
        "prefix ran (map (\<lambda>pl. Run (Join env [cfg, ''/plugins/'', ClassPlugin.Name pl]))
                      (filter (\<lambda>pl. ExecNumber pl < 0) ps))"
        "r = None \<longrightarrow> ran = map (\<lambda>pl. Run (Join env [cfg, ''/plugins/'', ClassPlugin.Name pl]))
                      (filter (\<lambda>pl. ExecNumber pl < 0) ps)"
        by blast
      with c1 False show ?thesis
        by (intro exI [of _ "Run ?path # ran"]) simp
    next
      case (Some e)
      with Cons.prems False run have "r = Some e" "w' = w1" by simp_all
      with c1 False show ?thesis
        by (intro exI [of _ "[Run ?path]"]) simp
    qed
  qed
qed

lemma postRun_calls:
  "postRun env cfg ps w = (r, w') \<Longrightarrow>
     \<exists>ran. calls w' = calls w @ ran
       \<and> prefix ran (map (\<lambda>pl. Run (Join env [cfg, ''/plugins/'', ClassPlugin.Name pl]))
                      (filter (\<lambda>pl. 0 < ExecNumber pl) ps))
       \<and> (r = None \<longrightarrow> ran = map (\<lambda>pl. Run (Join env [cfg, ''/plugins/'', ClassPlugin.Name pl]))
                      (filter (\<lambda>pl. 0 < ExecNumber pl) ps))"
proof (induction ps arbitrary: w)
  case Nil
  then show ?case by simp
next
  case (Cons pl ps)
  show ?case
  proof (cases "ExecNumber pl \<le> 0")
    case True
    with Cons show ?thesis by simp
  next
    case False
    let ?path = "Join env [cfg, ''/plugins/'', ClassPlugin.Name pl]"
    obtain r1 w1 where run: "runPlugin env ?path w = (r1, w1)"
      by (cases "runPlugin env ?path w")
    then have c1: "calls w1 = calls w @ [Run ?path]"
      by (simp add: runPlugin_calls)
    show ?thesis
    proof (cases r1)
      case None
      with Cons.prems False run have "postRun env cfg ps w1 = (r, w')" by simp
      from Cons.IH [OF this] obtain ran where
        "calls w' = calls w1 @ ran"
        "prefix ran (map (\<lambda>pl. Run (Join env [cfg, ''/plugins/'', ClassPlugin.Name pl]))
                      (filter (\<lambda>pl. 0 < ExecNumber pl) ps))"
        "r = None \<longrightarrow> ran = map (\<lambda>pl. Run (Join env [cfg, ''/plugins/'', ClassPlugin.Name pl]))
                      (filter (\<lambda>pl. 0 < ExecNumber pl) ps)"
        by blast
      with c1 False show ?thesis
        by (intro exI [of _ "Run ?path # ran"]) simp
    next
      case (Some e)
      with Cons.prems False run have "r = Some e" "w' = w1" by simp_all
      with c1 False show ?thesis
        by (intro exI [of _ "[Run ?path]"]) simp
    qed
  qed
qed

lemma writeTemplate_calls:
  "writeTemplate env tp t w = (r, w') \<Longrightarrow>
     \<exists>tc. calls w' = calls w @ tc \<and> (\<forall>path. Run path \<notin> set tc) \<and> wd w' = wd w"
  by (auto simp: writeTemplate_def copy_Copy_def os_Create_def os_MkdirAll_def
      split: prod.splits option.splits if_splits)

lemma writeTemplates_calls:
  "writeTemplates env tp ts w = (r, w') \<Longrightarrow>
     \<exists>tc. calls w' = calls w @ tc \<and> (\<forall>path. Run path \<notin> set tc) \<and> wd w' = wd w"
proof (induction ts arbitrary: w)
  case Nil
  then show ?case by simp
next
  case (Cons t ts)
  obtain r1 w1 where s: "writeTemplate env tp t w = (r1, w1)"
    by (cases "writeTemplate env tp t w")
  from writeTemplate_calls [OF s] obtain tc1 where
    t1: "calls w1 = calls w @ tc1" "\<forall>path. Run path \<notin> set tc1" "wd w1 = wd w"
    by blast
  show ?case
  proof (cases r1)
    case None
    with Cons.prems s have "writeTemplates env tp ts w1 = (r, w')" by simp
    from Cons.IH [OF this] obtain tc where
      "calls w' = calls w1 @ tc" "\<forall>path. Run path \<notin> set tc" "wd w' = wd w1"
      by blast
    with t1 show ?thesis by (intro exI [of _ "tc1 @ tc"]) simp
  next
    case (Some e)
    with Cons.prems s have "w' = w1" by simp
    with t1 show ?thesis by blast
  qed
qed

text \<open>
  The calls of a successful \<open>Create\<close>: the folder, the change into it, the plugins with
  a negative \<open>ExecNumber\<close>, the calls that write the templates, none of which runs a
  plugin, the plugins with a positive \<open>ExecNumber\<close>, and the change back.
\<close>

lemma create_success_calls:
  assumes "Create env p cwd configPath w = (Returns None, w')"
  shows "\<exists>tc d. calls w' = calls w @ [Mkdir (Project.Name p), Chdir (Project.Name p)]
            @ map (\<lambda>pl. Run (Join env [configPath, ''/plugins/'', ClassPlugin.Name pl]))
                (filter (\<lambda>pl. ExecNumber pl < 0) (Plugins (Class p)))
            @ tc
            @ map (\<lambda>pl. Run (Join env [configPath, ''/plugins/'', ClassPlugin.Name pl]))
                (filter (\<lambda>pl. 0 < ExecNumber pl) (Plugins (Class p)))
            @ [Chdir d]
          \<and> (\<forall>path. Run path \<notin> set tc)"
proof -
  obtain m1 w1 where a: "createProjectFolder env p w = (m1, w1)"
    by (cases "createProjectFolder env p w")
  with assms have m1: "m1 = None"
    by (cases m1) (auto simp: Create_def)
  obtain m2 w2 where b: "os_Chdir env (Project.Name p) w1 = (m2, w2)"
    by (cases "os_Chdir env (Project.Name p) w1")
  with assms a m1 have m2: "m2 = None"
    by (cases m2) (auto simp: Create_def)
  from a m1 have c1: "calls w1 = calls w @ [Mkdir (Project.Name p)]"
    by (auto simp: createProjectFolder_def os_Mkdir_def)
  from b have c2: "calls w2 = calls w1 @ [Chdir (Project.Name p)]"
    by (auto simp: os_Chdir_def split: option.splits)
  obtain front where f: "slice_to cwd (int (length cwd) - 1) = Some front"
    using assms a b m1 m2
    by (cases "slice_to cwd (int (length cwd) - 1)") (auto simp: Create_def)
  define d where "d = (if front \<noteq> ''/'' then cwd @ ''/'' else cwd)"
  obtain r3 w3 where pre: "preRunPlugins env p configPath w2 = (r3, w3)"
    by (cases "preRunPlugins env p configPath w2")
  obtain r4 w4 where tpl: "createFilesAndFolders env p configPath w3 = (r4, w4)"
    by (cases "createFilesAndFolders env p configPath w3")
  obtain r5 w5 where post: "postRunPlugins env p configPath w4 = (r5, w5)"
    by (cases "postRunPlugins env p configPath w4")
  from assms a b m1 m2 f pre have r3: "r3 = None"
    by (cases r3) (auto simp: Create_def Let_def split: prod.splits)
  from assms a b m1 m2 f pre r3 tpl have r4: "r4 = None"
    by (cases r4) (auto simp: Create_def Let_def split: prod.splits)
  from assms a b m1 m2 f pre r3 tpl r4 post
  have r5: "r5 = None" and w': "w' = snd (os_Chdir env d w5)"
    by (auto simp: Create_def Let_def d_def split: prod.splits)
  from w' have c6: "calls w' = calls w5 @ [Chdir d]"
    by (auto simp: os_Chdir_def split: option.splits)
  from preRun_calls [of env configPath "Plugins (Class p)" w2 r3 w3] pre r3
  have c3: "calls w3 = calls w2
              @ map (\<lambda>pl. Run (Join env [configPath, ''/plugins/'', ClassPlugin.Name pl]))
                  (filter (\<lambda>pl. ExecNumber pl < 0) (Plugins (Class p)))"
    by (auto simp: preRunPlugins_def)
  from postRun_calls [of env configPath "Plugins (Class p)" w4 r5 w5] post r5
  have c5: "calls w5 = calls w4
              @ map (\<lambda>pl. Run (Join env [configPath, ''/plugins/'', ClassPlugin.Name pl]))
                  (filter (\<lambda>pl. 0 < ExecNumber pl) (Plugins (Class p)))"
    by (auto simp: postRunPlugins_def)
  from tpl obtain tc where c4: "calls w4 = calls w3 @ tc" "\<forall>path. Run path \<notin> set tc"
    using writeTemplates_calls [of env _ "Templates (Class p)" w3 r4 w4]
    by (auto simp: createFilesAndFolders_def Let_def)
  from c1 c2 c3 c4 c5 c6 show ?thesis
    by (intro exI [of _ tc] exI [of _ d]) simp
qed

text \<open>
  C5: the pre-hook phase runs the plugins with a negative \<open>ExecNumber\<close> and the post-hook
  phase those with a positive one, each in the order of the stored list, so that a plugin
  with \<open>ExecNumber = 0\<close> runs in neither. What a phase has run is always a beginning of
  that list, and the whole list when the phase returns without error (a failing plugin
  ends it); a \<open>Create\<close> that succeeds has run exactly the two lists, around the writing of
  the templates.
\<close>

theorem plugins_run_by_sign:
  "(preRunPlugins env p configPath w = (r, w') \<longrightarrow>
      (\<exists>ran. calls w' = calls w @ ran
         \<and> prefix ran (map (\<lambda>pl. Run (Join env [configPath, ''/plugins/'', ClassPlugin.Name pl]))
                        (filter (\<lambda>pl. ExecNumber pl < 0) (Plugins (Class p))))
         \<and> (r = None \<longrightarrow>
              ran = map (\<lambda>pl. Run (Join env [configPath, ''/plugins/'', ClassPlugin.Name pl]))
                      (filter (\<lambda>pl. ExecNumber pl < 0) (Plugins (Class p))))))
   \<and> (postRunPlugins env p configPath v = (s, v') \<longrightarrow>
      (\<exists>ran. calls v' = calls v @ ran
         \<and> prefix ran (map (\<lambda>pl. Run (Join env [configPath, ''/plugins/'', ClassPlugin.Name pl]))
                        (filter (\<lambda>pl. 0 < ExecNumber pl) (Plugins (Class p))))
         \<and> (s = None \<longrightarrow>
              ran = map (\<lambda>pl. Run (Join env [configPath, ''/plugins/'', ClassPlugin.Name pl]))
                      (filter (\<lambda>pl. 0 < ExecNumber pl) (Plugins (Class p))))))
   \<and> (Create env p cwd configPath u = (Returns None, u') \<longrightarrow>
      (\<exists>tc d. calls u' = calls u @ [Mkdir (Project.Name p), Chdir (Project.Name p)]
            @ map (\<lambda>pl. Run (Join env [configPath, ''/plugins/'', ClassPlugin.Name pl]))
                (filter (\<lambda>pl. ExecNumber pl < 0) (Plugins (Class p)))
            @ tc
            @ map (\<lambda>pl. Run (Join env [configPath, ''/plugins/'', ClassPlugin.Name pl]))
                (filter (\<lambda>pl. 0 < ExecNumber pl) (Plugins (Class p)))
            @ [Chdir d]
          \<and> (\<forall>path. Run path \<notin> set tc)))"
proof (intro conjI impI)
  assume "preRunPlugins env p configPath w = (r, w')"
  then show "\<exists>ran. calls w' = calls w @ ran
         \<and> prefix ran (map (\<lambda>pl. Run (Join env [configPath, ''/plugins/'', ClassPlugin.Name pl]))
                        (filter (\<lambda>pl. ExecNumber pl < 0) (Plugins (Class p))))
         \<and> (r = None \<longrightarrow>
              ran = map (\<lambda>pl. Run (Join env [configPath, ''/plugins/'', ClassPlugin.Name pl]))
                      (filter (\<lambda>pl. ExecNumber pl < 0) (Plugins (Class p))))"
    using preRun_calls [of env configPath "Plugins (Class p)" w r w']
    by (simp add: preRunPlugins_def)
next
  assume "postRunPlugins env p configPath v = (s, v')"
  then show "\<exists>ran. calls v' = calls v @ ran
         \<and> prefix ran (map (\<lambda>pl. Run (Join env [configPath, ''/plugins/'', ClassPlugin.Name pl]))
                        (filter (\<lambda>pl. 0 < ExecNumber pl) (Plugins (Class p))))
         \<and> (s = None \<longrightarrow>
              ran = map (\<lambda>pl. Run (Join env [configPath, ''/plugins/'', ClassPlugin.Name pl]))
                      (filter (\<lambda>pl. 0 < ExecNumber pl) (Plugins (Class p))))"
    using postRun_calls [of env configPath "Plugins (Class p)" v s v']
    by (simp add: postRunPlugins_def)
next
  assume "Create env p cwd configPath u = (Returns None, u')"
  then show "\<exists>tc d. calls u' = calls u @ [Mkdir (Project.Name p), Chdir (Project.Name p)]
            @ map (\<lambda>pl. Run (Join env [configPath, ''/plugins/'', ClassPlugin.Name pl]))
                (filter (\<lambda>pl. ExecNumber pl < 0) (Plugins (Class p)))
            @ tc
            @ map (\<lambda>pl. Run (Join env [configPath, ''/plugins/'', ClassPlugin.Name pl]))
                (filter (\<lambda>pl. 0 < ExecNumber pl) (Plugins (Class p)))
            @ [Chdir d]
          \<and> (\<forall>path. Run path \<notin> set tc)"
    by (rule create_success_calls)
qed

theorem plugins_run_by_sign_witness:
  "fst (preRunPlugins demoEnv demoProject ''/cfg'' demoWorld) = None
   \<and> calls (snd (preRunPlugins demoEnv demoProject ''/cfg'' demoWorld))
       = [Run ''/cfg/plugins/pre2'', Run ''/cfg/plugins/pre1'']
   \<and> fst (postRunPlugins demoEnv demoProject ''/cfg'' demoWorld) = None
   \<and> calls (snd (postRunPlugins demoEnv demoProject ''/cfg'' demoWorld))
       = [Run ''/cfg/plugins/post2'', Run ''/cfg/plugins/post1'']
   \<and> fst (Create demoEnv demoProject ''/home/u'' ''/cfg'' demoWorld) = Returns None
   \<and> (\<exists>tc d. calls (snd (Create demoEnv demoProject ''/home/u'' ''/cfg'' demoWorld))
         = [Mkdir ''demo'', Chdir ''demo'', Run ''/cfg/plugins/pre2'', Run ''/cfg/plugins/pre1'']
           @ tc @ [Run ''/cfg/plugins/post2'', Run ''/cfg/plugins/post1'', Chdir d]
         \<and> (\<forall>path. Run path \<notin> set tc))"
proof -
  let ?pre = "preRunPlugins demoEnv demoProject ''/cfg'' demoWorld"
  let ?post = "postRunPlugins demoEnv demoProject ''/cfg'' demoWorld"
  let ?cr = "Create demoEnv demoProject ''/home/u'' ''/cfg'' demoWorld"
  have a: "fst ?pre = None" by code_simp
  have b: "fst ?post = None" by code_simp
  have c: "fst ?cr = Returns None" by code_simp
  have a': "?pre = (None, snd ?pre)" using a by (simp add: prod_eq_iff)
  have b': "?post = (None, snd ?post)" using b by (simp add: prod_eq_iff)
  have c': "?cr = (Returns None, snd ?cr)" using c by (simp add: prod_eq_iff)
  have neg: "map (\<lambda>pl. Run (Join demoEnv [''/cfg'', ''/plugins/'', ClassPlugin.Name pl]))
               (filter (\<lambda>pl. ExecNumber pl < 0) (Plugins (Class demoProject)))
             = [Run ''/cfg/plugins/pre2'', Run ''/cfg/plugins/pre1'']"
    by code_simp
  have pos: "map (\<lambda>pl. Run (Join demoEnv [''/cfg'', ''/plugins/'', ClassPlugin.Name pl]))
               (filter (\<lambda>pl. 0 < ExecNumber pl) (Plugins (Class demoProject)))
             = [Run ''/cfg/plugins/post2'', Run ''/cfg/plugins/post1'']"
    by code_simp
  have n: "Project.Name demoProject = ''demo''" and w: "calls demoWorld = []"
    by (simp_all add: demoProject_def demoWorld_def)
  note inst = plugins_run_by_sign [of demoEnv demoProject "''/cfg''" demoWorld None "snd ?pre"
      demoWorld None "snd ?post" "''/home/u''" demoWorld "snd ?cr", unfolded neg pos n w]
  from inst a' have p1: "calls (snd ?pre) = [Run ''/cfg/plugins/pre2'', Run ''/cfg/plugins/pre1'']"
    by auto
  from inst b' have p2: "calls (snd ?post) = [Run ''/cfg/plugins/post2'', Run ''/cfg/plugins/post1'']"
    by auto
  from inst c' have p3: "\<exists>tc d. calls (snd ?cr)
         = [Mkdir ''demo'', Chdir ''demo'', Run ''/cfg/plugins/pre2'', Run ''/cfg/plugins/pre1'']
           @ tc @ [Run ''/cfg/plugins/post2'', Run ''/cfg/plugins/post1'', Chdir d]
         \<and> (\<forall>path. Run path \<notin> set tc)"
    by simp
  from a b c p1 p2 p3 show ?thesis by blast
qed

section \<open>The working directory during the creation of a project\<close>

lemma slice_to_nonempty:
  "cwd \<noteq> [] \<Longrightarrow> slice_to cwd (int (length cwd) - 1) \<noteq> None"
  by (cases cwd) (auto simp: slice_to_def)

lemma slice_to_empty:
  "slice_to [] (int (length ([]::string)) - 1) = None"
  by (simp add: slice_to_def)

lemma preRun_wd:
  "preRun env cfg ps w = (r, w') \<Longrightarrow> wd w' = wd w"
proof (induction ps arbitrary: w)
  case Nil
  then show ?case by simp
next
  case (Cons pl ps)
  then show ?case
    by (auto simp: Let_def dest: runPlugin_calls split: if_splits prod.splits option.splits)
qed

lemma postRun_wd:
  "postRun env cfg ps w = (r, w') \<Longrightarrow> wd w' = wd w"
proof (induction ps arbitrary: w)
  case Nil
  then show ?case by simp
next
  case (Cons pl ps)
  then show ?case
    by (auto simp: Let_def dest: runPlugin_calls split: if_splits prod.splits option.splits)
qed

text \<open>
  Once the \<open>defer\<close> statement is reached, which a non-empty \<open>cwd\<close> ensures, \<open>Create\<close>
  returns and its last call is the change to \<open>cwd\<close>, with a slash added unless all of
  \<open>cwd\<close> but its last byte is \<open>"/"\<close>; until then the process has stayed in the project
  folder.
\<close>

lemma create_changes_back:
  assumes "cwd \<noteq> []"
      and "createProjectFolder env p w = (None, w1)"
      and "os_Chdir env (Project.Name p) w1 = (None, w2)"
  shows "\<exists>r w3. wd w3 = Project.Name p
           \<and> Create env p cwd configPath w
               = (Returns r, snd (os_Chdir env (if take (length cwd - 1) cwd \<noteq> ''/'' then cwd @ ''/'' else cwd) w3))"
proof -
  from assms(1) have f: "slice_to cwd (int (length cwd) - 1) = Some (take (length cwd - 1) cwd)"
    by (cases cwd) (auto simp: slice_to_def)
  from assms(3) have wd2: "wd w2 = Project.Name p"
    by (auto simp: os_Chdir_def split: option.splits)
  obtain r3 w3 where pre: "preRunPlugins env p configPath w2 = (r3, w3)"
    by (cases "preRunPlugins env p configPath w2")
  obtain r4 w4 where tpl: "createFilesAndFolders env p configPath w3 = (r4, w4)"
    by (cases "createFilesAndFolders env p configPath w3")
  obtain r5 w5 where post: "postRunPlugins env p configPath w4 = (r5, w5)"
    by (cases "postRunPlugins env p configPath w4")
  from pre have wd3: "wd w3 = wd w2"
    by (auto simp: preRunPlugins_def dest: preRun_wd)
  from tpl have wd4: "wd w4 = wd w3"
    using writeTemplates_calls [of env _ "Templates (Class p)" w3 r4 w4]
    by (auto simp: createFilesAndFolders_def Let_def)
  from post have wd5: "wd w5 = wd w4"
    by (auto simp: postRunPlugins_def dest: postRun_wd)
  show ?thesis
  proof (cases r3)
    case (Some e)
    with assms(2,3) f pre wd2 wd3 show ?thesis
      by (intro exI [of _ r3] exI [of _ w3]) (simp add: Create_def Let_def split: prod.splits)
  next
    case None
    note r3 = this
    show ?thesis
    proof (cases r4)
      case (Some e)
      with assms(2,3) f pre r3 tpl wd2 wd3 wd4 show ?thesis
        by (intro exI [of _ r4] exI [of _ w4]) (simp add: Create_def Let_def split: prod.splits)
    next
      case None
      with assms(2,3) f pre r3 tpl post wd2 wd3 wd4 wd5 show ?thesis
        by (intro exI [of _ r5] exI [of _ w5]) (simp add: Create_def Let_def split: prod.splits)
    qed
  qed
qed

text \<open>
  C9: for a non-empty \<open>cwd\<close> the slice \<open>cwd[:len(cwd)-1]\<close> is in bounds and \<open>Create\<close>
  returns; for the empty \<open>cwd\<close> the slice is out of bounds, and a \<open>Create\<close> that has made
  the project folder and changed into it panics there: the process is in the project
  folder and these two calls are all it has made, so no change back is registered.
\<close>

theorem create_panics_only_on_empty_cwd:
  "(cwd \<noteq> [] \<longrightarrow>
      slice_to cwd (int (length cwd) - 1) \<noteq> None
      \<and> (\<exists>r. fst (Create env p cwd configPath w) = Returns r))
   \<and> (createProjectFolder env p w = (None, w1) \<and> os_Chdir env (Project.Name p) w1 = (None, w2) \<longrightarrow>
        slice_to [] (int (length ([]::string)) - 1) = None
        \<and> Create env p [] configPath w = (Panics, w2)
        \<and> wd w2 = Project.Name p
        \<and> calls w2 = calls w @ [Mkdir (Project.Name p), Chdir (Project.Name p)])"
proof (intro conjI impI)
  assume ne: "cwd \<noteq> []"
  then show "slice_to cwd (int (length cwd) - 1) \<noteq> None"
    by (rule slice_to_nonempty)
  then obtain front where "slice_to cwd (int (length cwd) - 1) = Some front"
    by blast
  then show "\<exists>r. fst (Create env p cwd configPath w) = Returns r"
    by (simp add: Create_def Let_def split: prod.splits option.splits)
next
  assume h: "createProjectFolder env p w = (None, w1)
             \<and> os_Chdir env (Project.Name p) w1 = (None, w2)"
  show "slice_to [] (int (length ([]::string)) - 1) = None"
    by (rule slice_to_empty)
  from h show "Create env p [] configPath w = (Panics, w2)"
    by (simp add: Create_def slice_to_def)
  from h show "wd w2 = Project.Name p"
    by (auto simp: os_Chdir_def split: option.splits)
  from h show "calls w2 = calls w @ [Mkdir (Project.Name p), Chdir (Project.Name p)]"
    by (auto simp: os_Chdir_def createProjectFolder_def os_Mkdir_def split: option.splits)
qed

theorem create_panics_only_on_empty_cwd_witness:
  "''/home/u'' \<noteq> []
   \<and> (\<exists>r. fst (Create demoEnv demoProject ''/home/u'' ''/cfg'' demoWorld) = Returns r)
   \<and> createProjectFolder demoEnv demoProject demoWorld
       = (None, demoWorld\<lparr>calls := [Mkdir ''demo'']\<rparr>)
   \<and> os_Chdir demoEnv ''demo'' (demoWorld\<lparr>calls := [Mkdir ''demo'']\<rparr>)
       = (None, demoWorld\<lparr>wd := ''demo'', calls := [Mkdir ''demo'', Chdir ''demo'']\<rparr>)
   \<and> Create demoEnv demoProject [] ''/cfg'' demoWorld
       = (Panics, demoWorld\<lparr>wd := ''demo'', calls := [Mkdir ''demo'', Chdir ''demo'']\<rparr>)"
proof -
  have a: "createProjectFolder demoEnv demoProject demoWorld
             = (None, demoWorld\<lparr>calls := [Mkdir ''demo'']\<rparr>)"
    by (simp add: createProjectFolder_def os_Mkdir_def demoEnv_def demoProject_def demoWorld_def)
  have n: "Project.Name demoProject = ''demo''"
    by (simp add: demoProject_def)
  have b: "os_Chdir demoEnv ''demo'' (demoWorld\<lparr>calls := [Mkdir ''demo'']\<rparr>)
             = (None, demoWorld\<lparr>wd := ''demo'', calls := [Mkdir ''demo'', Chdir ''demo'']\<rparr>)"
    by (simp add: os_Chdir_def demoEnv_def demoWorld_def)
  from create_panics_only_on_empty_cwd [of "''/home/u''" demoEnv demoProject "''/cfg''" demoWorld
      "demoWorld\<lparr>calls := [Mkdir ''demo'']\<rparr>"
      "demoWorld\<lparr>wd := ''demo'', calls := [Mkdir ''demo'', Chdir ''demo'']\<rparr>"]
    a b n
  show ?thesis by simp
qed

text \<open>
  C6: the working directory is not restored on every way out of a \<open>Create\<close> that has
  changed into the project folder. With the empty \<open>cwd\<close> the call panics between the
  change and the \<open>defer\<close> statement: the process started in \<open>/home/u\<close> and is left in the
  project folder \<open>demo\<close>, the change back never made.
\<close>

theorem create_empty_cwd_not_restored:
  "fst (Create demoEnv demoProject [] ''/cfg'' demoWorld) = Panics
   \<and> wd demoWorld = ''/home/u''
   \<and> wd (snd (Create demoEnv demoProject [] ''/cfg'' demoWorld)) = ''demo''
   \<and> calls (snd (Create demoEnv demoProject [] ''/cfg'' demoWorld))
       = [Mkdir ''demo'', Chdir ''demo'']"
  by code_simp

section \<open>The writing of the templates\<close>

lemma writeTemplate_file:
  assumes "IsFile template" "writeTemplate env tp template w1 = (None, w2)"
  shows "calls w2 = calls w1
            @ (if Template.Path template \<noteq> []
               then [Copy (Join env [tp, ''/'', Template.Path template])
                       (Template.Destination template)]
               else [])
            @ [CreateFile (Template.Destination template)]
       \<and> files w2 (Template.Destination template) = Some []"
  using assms
  by (auto simp: writeTemplate_def copy_Copy_def os_Create_def
      split: prod.splits option.splits if_splits)

lemma writeTemplates_append:
  "writeTemplates env tp before w = (None, w1) \<Longrightarrow>
     writeTemplates env tp (before @ rest) w = writeTemplates env tp rest w1"
  by (induction before arbitrary: w) (auto split: prod.splits option.splits)

text \<open>
  C10: when the writing of the templates comes to a template with \<open>IsFile\<close> true and its
  step returns no error, the step has made the copy, if the template has a \<open>Path\<close>, and
  then created the file at \<open>Destination\<close>, and the file at \<open>Destination\<close> is empty; the
  writing goes on with the templates that follow. So a file template with a \<open>Path\<close> is
  left empty although its source was copied there first.
\<close>

theorem file_template_ends_empty:
  assumes "Templates (Class p) = before @ template # rest"
      and "IsFile template"
      and "writeTemplates env (Join env [configPath, ''/templates/'']) before w = (None, w1)"
      and "writeTemplate env (Join env [configPath, ''/templates/'']) template w1 = (None, w2)"
  shows "createFilesAndFolders env p configPath w
           = writeTemplates env (Join env [configPath, ''/templates/'']) rest w2
       \<and> calls w2 = calls w1
            @ (if Template.Path template \<noteq> []
               then [Copy (Join env [Join env [configPath, ''/templates/''], ''/'',
                                      Template.Path template])
                       (Template.Destination template)]
               else [])
            @ [CreateFile (Template.Destination template)]
       \<and> files w2 (Template.Destination template) = Some []"
proof -
  have "createFilesAndFolders env p configPath w
          = writeTemplates env (Join env [configPath, ''/templates/'']) rest w2"
    using assms(1,3,4) writeTemplates_append [OF assms(3), of "template # rest"]
    by (simp add: createFilesAndFolders_def)
  with writeTemplate_file [OF assms(2,4)] show ?thesis by simp
qed

theorem file_template_ends_empty_witness:
  "files (snd (copy_Copy demoEnv ''/cfg/templates/main.go'' ''src.go'' demoWorld)) ''src.go''
     = Some ''package main''
   \<and> fst (createFilesAndFolders demoEnv demoProject ''/cfg'' demoWorld) = None
   \<and> calls (snd (createFilesAndFolders demoEnv demoProject ''/cfg'' demoWorld))
       = [Copy ''/cfg/templates/main.go'' ''src.go'', CreateFile ''src.go'']
   \<and> files (snd (createFilesAndFolders demoEnv demoProject ''/cfg'' demoWorld)) ''src.go''
       = Some []"
proof -
  let ?t = "\<lparr>IsFile = True, Path = ''main.go'', Destination = ''src.go'', Description = []\<rparr>"
  let ?tp = "Join demoEnv [''/cfg'', ''/templates/'']"
  let ?w2 = "snd (writeTemplate demoEnv ?tp ?t demoWorld)"
  have ts: "Templates (Class demoProject) = [] @ ?t # []"
    by (simp add: demoProject_def)
  have f: "IsFile ?t"
    by simp
  have b: "writeTemplates demoEnv ?tp [] demoWorld = (None, demoWorld)"
    by simp
  have "fst (writeTemplate demoEnv ?tp ?t demoWorld) = None"
    by code_simp
  then have s: "writeTemplate demoEnv ?tp ?t demoWorld = (None, ?w2)"
    by (simp add: prod_eq_iff)
  have src: "Join demoEnv [?tp, ''/'', ''main.go''] = ''/cfg/templates/main.go''"
    by code_simp
  have w: "calls demoWorld = []"
    by (simp add: demoWorld_def)
  have c: "files (snd (copy_Copy demoEnv ''/cfg/templates/main.go'' ''src.go'' demoWorld)) ''src.go''
             = Some ''package main''"
    by (simp add: copy_Copy_def demoEnv_def)
  from file_template_ends_empty [OF ts f b s]
  have "createFilesAndFolders demoEnv demoProject ''/cfg'' demoWorld = (None, ?w2)
        \<and> calls ?w2 = [Copy ''/cfg/templates/main.go'' ''src.go'', CreateFile ''src.go'']
        \<and> files ?w2 ''src.go'' = Some []"
    by (simp add: src w)
  with c show ?thesis by simp
qed


end
